theory Spec2Isabelle
  imports Main
begin

section \<open>The restack command (commands/original-commands/restack/index.ts)\<close>

subsection \<open>State: meta store, Git, and the trace of operations\<close>

text \<open>
  The command runs Git as a child process and keeps per-branch metadata (parent name,
  previous ref). The Git repository is an abstract value of type \<open>'g\<close>; what the
  Git commands do to it is given by the adapter record \<open>git_ops\<close> below. The meta
  store is a pair of maps. Every write to meta and every Git command that is run is
  appended to \<open>trace\<close>, so that the order of the effects can be stated. Terminal
  output is not part of the state, except for the message of an exit.
\<close>

datatype op =
    SetPrevRef string string
  | SetParent string string
  | Checkout string
  | Rebase string string string

record 'g repo =
  git :: 'g
  metaParent :: "string \<Rightarrow> string option"
  metaPrevRef :: "string \<Rightarrow> string option"
  tracked :: "string list"
  trace :: "op list"

text \<open>
  The helpers of lib/utils and the Git calls of the Branch class, which are not among
  the sources: each is a field. \<open>rebaseOnto onto upstream branch\<close> stands for
  \<^verbatim>\<open>execSync("git rebase --onto <onto> <upstream> <branch>")\<close>: its first
  component says whether Git exited with status zero (execSync throws otherwise).
  \<open>checkoutBranch\<close> returns None when the checkout fails. \<open>configPath\<close> is the
  constant CURRENT_REPO_CONFIG_PATH. \<open>validateCommand\<close>
  is ValidateCommand().executeUnprofiled: a read of the state that either succeeds or
  throws. \<open>trunkBranches\<close> is the repo-level configuration value of that name and
  \<open>arrayProtoKeys\<close> the property names that a JavaScript array inherits from its
  prototype chain in the running engine.
\<close>

record 'g git_ops =
  rebaseInProgress :: "'g \<Rightarrow> bool"
  uncommittedChanges :: "'g \<Rightarrow> bool"
  getCurrentRef :: "'g \<Rightarrow> string \<Rightarrow> string"
  gitMergeBase :: "'g \<Rightarrow> string \<Rightarrow> string \<Rightarrow> string option"
  checkoutBranch :: "string \<Rightarrow> 'g \<Rightarrow> 'g option"
  rebaseOnto :: "string \<Rightarrow> string \<Rightarrow> string \<Rightarrow> 'g \<Rightarrow> bool \<times> 'g"
  getCurrentBranch :: "'g \<Rightarrow> string option"
  validateCommand :: "'g repo \<Rightarrow> bool"
  trunkBranches :: "string list option"
  arrayProtoKeys :: "string list"
  configPath :: string

datatype 'g outcome =
    Done "'g repo"
  | Exited string "'g repo"
  | GitFailed op "'g repo"
  | OutOfFuel

subsection \<open>The Branch class, as far as restack uses it\<close>

definition getParentFromMeta :: "'g repo \<Rightarrow> string \<Rightarrow> string option" where
  "getParentFromMeta s b = metaParent s b"

definition setMetaPrevRef :: "string \<Rightarrow> string \<Rightarrow> 'g repo \<Rightarrow> 'g repo" where
  "setMetaPrevRef b r s =
     s\<lparr>metaPrevRef := (metaPrevRef s)(b \<mapsto> r), trace := trace s @ [SetPrevRef b r]\<rparr>"

definition setParentBranchName :: "string \<Rightarrow> string \<Rightarrow> 'g repo \<Rightarrow> 'g repo" where
  "setParentBranchName b p s =
     s\<lparr>metaParent := (metaParent s)(b \<mapsto> p), trace := trace s @ [SetParent b p]\<rparr>"

text \<open>
  Modelled from the spec: Branch.getChildrenFromMeta is not among the sources. Spec 4.3:
  children() enumerates all tracked branches b with getParent(b) = self.name.
\<close>

definition getChildrenFromMeta :: "'g repo \<Rightarrow> string \<Rightarrow> string list" where
  "getChildrenFromMeta s b = filter (\<lambda>c. metaParent s c = Some b) (tracked s)"

text \<open>
  Modelled from the spec: Branch.getMetaMergeBase is not among the sources. Spec 4.3:
  metaMergeBase() returns prevRef if set, else the current Git merge-base(self, parent).
\<close>

definition getMetaMergeBase :: "'g git_ops \<Rightarrow> 'g repo \<Rightarrow> string \<Rightarrow> string option" where
  "getMetaMergeBase ops s b =
     (case metaPrevRef s b of
        Some r \<Rightarrow> Some r
      | None \<Rightarrow>
          (case metaParent s b of
             None \<Rightarrow> None
           | Some p \<Rightarrow> gitMergeBase ops (git s) b p))"

subsection \<open>The operator \<open>in\<close> on the trunk list\<close>

fun show_nat :: "nat \<Rightarrow> string" where
  "show_nat n =
     (if n < 10 then [''0123456789'' ! n]
      else show_nat (n div 10) @ [''0123456789'' ! (n mod 10)])"

declare show_nat.simps [simp del]

text \<open>
  Modelled from the spec: the declaration of trunkBranches (lib/utils) is not among the
  sources. Spec 3 and 6: the repo-level config stores the list of trunk branch names
  (\<open>trunks[]\<close>), so the value is a JavaScript array of strings, or undefined.
  \<open>name in xs\<close> on an array asks whether \<open>name\<close> is a property key of \<open>xs\<close>:
  an index below the length written in decimal, \<open>length\<close>, or an inherited name.
  It does not look at the elements.
\<close>

definition arrayOwnKeys :: "string list \<Rightarrow> string list" where
  "arrayOwnKeys xs = map show_nat [0..<length xs] @ [''length'']"

definition js_in :: "'g git_ops \<Rightarrow> string \<Rightarrow> string list \<Rightarrow> bool" where
  "js_in ops name xs \<longleftrightarrow> name \<in> set (arrayOwnKeys xs) \<or> name \<in> set (arrayProtoKeys ops)"

subsection \<open>restackBranch and the loop over children\<close>

definition msgRebaseInProgress :: "string \<Rightarrow> string" where
  "msgRebaseInProgress b =
     ''Interactive rebase in progress, cannot restack ('' @ b @
     ''). Complete the rebase and re-run restack command.''"

definition msgNoParent :: "string \<Rightarrow> string" where
  "msgNoParent b =
     ''Cannot find parent from meta defined stack for ('' @ b @ ''), stopping restack''"

definition msgNoMergeBase :: "string \<Rightarrow> string" where
  "msgNoMergeBase b =
     ''Cannot find a merge base from meta defined stack for ('' @ b @ ''), stopping restack''"

text \<open>
  \<open>runRebase\<close> is the execSync of a \<^verbatim>\<open>git rebase --onto\<close>: the command is
  recorded, Git's state becomes what the adapter says, and the flag tells whether
  execSync returned (True) or threw (False).
\<close>

definition runRebase ::
  "'g git_ops \<Rightarrow> string \<Rightarrow> string \<Rightarrow> string \<Rightarrow> 'g repo \<Rightarrow> bool \<times> 'g repo" where
  "runRebase ops onto upstream b s =
     (let (ok, g') = rebaseOnto ops onto upstream b (git s)
      in (ok, s\<lparr>git := g', trace := trace s @ [Rebase onto upstream b]\<rparr>))"

text \<open>
  The recursion of restackBranch over the children follows the parent pointers of the
  meta store, which the code does not check for cycles: the model counts the depth of
  the recursion down from \<open>fuel\<close> and answers \<open>OutOfFuel\<close> at zero. The children are
  read once, after the rebase, as the \<^verbatim>\<open>for ... of\<close> loop does.
\<close>

fun restackBranch :: "'g git_ops \<Rightarrow> nat \<Rightarrow> string \<Rightarrow> 'g repo \<Rightarrow> 'g outcome"
  and restackChildren :: "'g git_ops \<Rightarrow> nat \<Rightarrow> string list \<Rightarrow> 'g repo \<Rightarrow> 'g outcome"
where
  "restackBranch ops 0 b s = OutOfFuel"
| "restackBranch ops (Suc n) b s =
     (if rebaseInProgress ops (git s) then Exited (msgRebaseInProgress b) s
      else case getParentFromMeta s b of
        None \<Rightarrow> Exited (msgNoParent b) s
      | Some p \<Rightarrow>
          (case getMetaMergeBase ops s b of
             None \<Rightarrow> Exited (msgNoMergeBase b) s
           | Some mergeBase \<Rightarrow>
               if mergeBase = [] then Exited (msgNoMergeBase b) s
               else
                 let s1 = setMetaPrevRef b (getCurrentRef ops (git s) b) s;
                     s1' = s1\<lparr>trace := trace s1 @ [Checkout b]\<rparr>
                 in case checkoutBranch ops b (git s1) of
                   None \<Rightarrow> GitFailed (Checkout b) s1'
                 | Some g2 \<Rightarrow>
                     (let (ok, s3) = runRebase ops p mergeBase b (s1'\<lparr>git := g2\<rparr>)
                      in if ok then restackChildren ops n (getChildrenFromMeta s3 b) s3
                         else GitFailed (Rebase p mergeBase b) s3)))"
| "restackChildren ops n [] s = Done s"
| "restackChildren ops n (c # cs) s =
     (case restackBranch ops n c s of
        Done s' \<Rightarrow> restackChildren ops n cs s'
      | r \<Rightarrow> r)"

subsection \<open>restack --onto\<close>

definition msgTrunk :: "'g git_ops \<Rightarrow> string \<Rightarrow> string option \<Rightarrow> string" where
  "msgTrunk ops b onto =
     ''Cannot restack ('' @ b @ '') onto '' @ (case onto of Some t \<Rightarrow> t | None \<Rightarrow> ''undefined'') @
     '', ('' @ b @ '') is listed in ('' @ configPath ops @ '') as a trunk branch.''"

definition msgValidate :: string where
  \<open>msgValidate =
     ''Cannot "restack --onto", git derived stack must match meta defined stack. Consider running "restack" or "fix" first.''\<close>

definition msgOntoNoParent :: "string \<Rightarrow> string" where
  \<open>msgOntoNoParent b =
     ''Cannot "restack --onto", ('' @ b @ '') has no parent as defined by the meta.''\<close>

text \<open>checkBranchCanBeMoved returns the message of its exit, or None when it lets the
  branch through.\<close>

definition checkBranchCanBeMoved :: "'g git_ops \<Rightarrow> string \<Rightarrow> string option \<Rightarrow> string option" where
  "checkBranchCanBeMoved ops b onto =
     (case trunkBranches ops of
        None \<Rightarrow> None
      | Some ts \<Rightarrow> if js_in ops b ts then Some (msgTrunk ops b onto) else None)"

definition validate :: "'g git_ops \<Rightarrow> 'g repo \<Rightarrow> string option" where
  "validate ops s = (if validateCommand ops s then None else Some msgValidate)"

definition getParentForRebaseOnto :: "'g repo \<Rightarrow> string \<Rightarrow> string + string" where
  "getParentForRebaseOnto s b =
     (case getParentFromMeta s b of
        None \<Rightarrow> Inl (msgOntoNoParent b)
      | Some p \<Rightarrow> Inr p)"

text \<open>
  The upstream argument of the rebase is the shell substitution
  \<^verbatim>\<open>$(git merge-base <branch> <parent>)\<close>: the output of that command, empty when
  it fails.
\<close>

definition mergeBaseOutput :: "'g git_ops \<Rightarrow> 'g \<Rightarrow> string \<Rightarrow> string \<Rightarrow> string" where
  "mergeBaseOutput ops g a b = (case gitMergeBase ops g a b of Some m \<Rightarrow> m | None \<Rightarrow> [])"

definition restackOnto :: "'g git_ops \<Rightarrow> nat \<Rightarrow> string \<Rightarrow> string \<Rightarrow> 'g repo \<Rightarrow> 'g outcome" where
  "restackOnto ops fuel b onto s =
     (case checkBranchCanBeMoved ops b (Some onto) of
        Some msg \<Rightarrow> Exited msg s
      | None \<Rightarrow>
          (case validate ops s of
             Some msg \<Rightarrow> Exited msg s
           | None \<Rightarrow>
               (case getParentForRebaseOnto s b of
                  Inl msg \<Rightarrow> Exited msg s
                | Inr p \<Rightarrow>
                    (let s1 = setMetaPrevRef b (getCurrentRef ops (git s) b) s;
                         (ok, s2) = runRebase ops onto (mergeBaseOutput ops (git s1) b p) b s1
                     in if \<not> ok
                        then GitFailed (Rebase onto (mergeBaseOutput ops (git s1) b p) b) s2
                        else
                          let s3 = setParentBranchName b onto s2
                          in restackChildren ops fuel (getChildrenFromMeta s3 b) s3))))"

subsection \<open>The command\<close>

text \<open>
  RestackCommand._execute. \<open>onto\<close> is \<^verbatim>\<open>argv.onto\<close>, which counts as given when
  it is a non-empty string. The stacks printed before and after are output only.
\<close>

definition execute :: "'g git_ops \<Rightarrow> nat \<Rightarrow> string option \<Rightarrow> 'g repo \<Rightarrow> 'g outcome" where
  "execute ops fuel onto s =
     (if uncommittedChanges ops (git s)
      then Exited ''Cannot restack with uncommitted changes'' s
      else case getCurrentBranch ops (git s) of
        None \<Rightarrow> Exited ''Not currently on a branch; no target to restack.'' s
      | Some originalBranch \<Rightarrow>
          (case (case onto of
                   None \<Rightarrow> restackChildren ops fuel (getChildrenFromMeta s originalBranch) s
                 | Some t \<Rightarrow>
                     if t \<noteq> [] then restackOnto ops fuel originalBranch t s
                     else restackChildren ops fuel (getChildrenFromMeta s originalBranch) s) of
             Done s' \<Rightarrow>
               (let s'' = s'\<lparr>trace := trace s' @ [Checkout originalBranch]\<rparr>
                in case checkoutBranch ops originalBranch (git s') of
                  None \<Rightarrow> GitFailed (Checkout originalBranch) s''
                | Some g' \<Rightarrow> Done (s''\<lparr>git := g'\<rparr>))
           | r \<Rightarrow> r))"

subsection \<open>Notions used to state and prove the properties of restack\<close>





subsection \<open>A concrete repository: the stack main, A, B, C\<close>

text \<open>
  The stack of the scenarios of spec section 8: \<open>main \<rightarrow> A \<rightarrow> B \<rightarrow> C\<close>. Git is
  trivial here (type unit); every rebase succeeds except that of \<open>B\<close>, which stops
  with a conflict.
\<close>

definition scenario_ops :: "unit git_ops" where
  "scenario_ops =
     \<lparr>rebaseInProgress = (\<lambda>g. False),
      uncommittedChanges = (\<lambda>g. False),
      getCurrentRef = (\<lambda>g b. ''tip-'' @ b),
      gitMergeBase = (\<lambda>g a b. Some (''fork-'' @ a)),
      checkoutBranch = (\<lambda>b g. Some g),
      rebaseOnto = (\<lambda>onto upstream b g. (b \<noteq> ''B'', g)),
      getCurrentBranch = (\<lambda>g. Some ''main''),
      validateCommand = (\<lambda>s. True),
      trunkBranches = Some [''main''],
      arrayProtoKeys = [''constructor'', ''toString'', ''map'', ''filter''],
      configPath = ''.graphite_repo_config''\<rparr>"

definition scenario_repo :: "unit repo" where
  "scenario_repo =
     \<lparr>git = (),
      metaParent = [''A'' \<mapsto> ''main'', ''B'' \<mapsto> ''A'', ''C'' \<mapsto> ''B''],
      metaPrevRef = Map.empty,
      tracked = [''main'', ''A'', ''B'', ''C''],
      trace = []\<rparr>"

text \<open>The same Git with uncommitted changes in the working tree: it refuses every
  rebase.\<close>

definition dirty_ops :: "unit git_ops" where
  "dirty_ops =
     scenario_ops\<lparr>uncommittedChanges := (\<lambda>g. True),
                  rebaseOnto := (\<lambda>onto upstream b g. (False, g))\<rparr>"



text \<open>A repository whose trunk \<open>main\<close>, listed in trunkBranches, has a parent in meta.\<close>

definition trunk_repo :: "unit repo" where
  "trunk_repo =
     \<lparr>git = (),
      metaParent = [''main'' \<mapsto> ''develop''],
      metaPrevRef = Map.empty,
      tracked = [''develop'', ''main'', ''feature''],
      trace = []\<rparr>"

section \<open>The submit pipeline (actions/submit)\<close>

subsection \<open>Data\<close>

datatype scope = BRANCH | UPSTACK | DOWNSTACK | FULLSTACK

datatype pr_state = OPEN | MERGED | CLOSED

text \<open>
  Modelled from the spec: the type of the PR info kept in meta is not among the sources.
  Spec 3: prInfo is the optional record \<open>{number, url, base, state, title?, body?,
  draft?, reviewDecision?}\<close>. A field that has not been written is None.
\<close>

record pr_info =
  number :: "nat option"
  url :: "string option"
  base :: "string option"
  state :: "pr_state option"
  title :: "string option"
  body :: "string option"
  reviewDecision :: "string option"
  draft :: "bool option"

text \<open>The object literal passed to upsertPrInfo, key by key in the order written.
  \<open>Base\<close>, \<open>Title\<close> and \<open>Body\<close> carry the value read from \<open>pr.request\<close>, which
  may be undefined.\<close>

datatype pr_field =
    Number nat
  | Url string
  | Base "string option"
  | State pr_state
  | Title "string option"
  | Body "string option"
  | ReviewDecision string
  | Draft bool

datatype req_action = Create | Update

record pr_request =
  action :: req_action
  head :: string
  req_base :: string
  req_title :: "string option"
  req_body :: "string option"
  req_draft :: "bool option"

text \<open>
  What \<open>requests[head]\<close> reads from the table of requests, a plain object: a request; a
  value that is not a request and whose members \<open>base\<close>, \<open>action\<close> and \<open>draft\<close> read
  as undefined (a function inherited from \<open>Object.prototype\<close>, that prototype itself, or a
  string, number, boolean or array); or undefined (null counts as undefined here:
  reading a member of either throws).
\<close>

datatype looked_up = Found pr_request | Inherited | Undefined

datatype ok_status = Updated | Created

text \<open>
  A per-branch response of the review host: \<open>Submitted head status prNumber prURL\<close> for
  status updated or created, \<open>SubmitFailed head error\<close> for status error.
\<close>

datatype pr_response =
    Submitted string ok_status nat string
  | SubmitFailed string string

fun response_head :: "pr_response \<Rightarrow> string" where
  "response_head (Submitted h st n u) = h"
| "response_head (SubmitFailed h err) = h"

record submit_params =
  repoOwner :: string
  repoName :: string
  mergeWhenReady :: bool
  trunkBranchName :: string
  prs :: "pr_request list"

record http_response =
  status :: nat
  bodyPresent :: bool
  requestIdHeader :: "string option"
  response_prs :: "pr_response list"

datatype json =
    JNull
  | JBool bool
  | JNum string
  | JStr string
  | JArr "json list"
  | JObj "(string \<times> json) list"

datatype error =
    ValidationFailedError string
  | PreconditionsFailedError string
  | ExitFailedError string
  | KilledError
  | TypeError

datatype prompt_result = Cancelled | Selected string

datatype event =
    LogInfo string
  | LogWarn string
  | LogError string
  | LogNewline
  | Prompt string "(string \<times> string) list"
  | ConsoleLog "pr_request list"
  | SubmitRequest submit_params
  | SplogInfo string

text \<open>
  The state the pipeline works on: the PR info of the meta store, and everything the
  process has sent out so far (terminal lines, prompts, the HTTP request to the review
  host), oldest first.
\<close>

record world =
  prInfos :: "string \<Rightarrow> pr_info option"
  out :: "event list"

text \<open>
  The context: the collaborators that are not among the sources, one field each.
  \<open>currentBranchPrecondition\<close> is the current branch, or the error the precondition
  throws. \<open>metaStack scope b\<close> is \<open>branches()\<close> of the stack that MetaStackBuilder
  builds from \<open>b\<close>, None when building throws. \<open>validateStack\<close> is False when
  validateStack throws. \<open>promptResponse\<close> is what the user does at the prompt.
  \<open>requestWithArgs\<close> is the HTTP round trip. \<open>JSON_parse\<close> is JSON.parse, None when
  it throws. \<open>stringOf\<close> is the conversion of a JSON value other than a string to a
  string inside a template literal, None when the conversion throws. \<open>cuteString\<close>
  is the helper of that name. \<open>objectProtoKeys\<close> are the property names that every
  plain object inherits from \<open>Object.prototype\<close> in the running engine, \<open>__proto__\<close>
  among them. \<open>requestMember r name\<close> is the own property \<open>name\<close> of the request object
  \<open>r\<close> as \<open>requests[head]\<close> would read it: None when \<open>r\<close> has no such property.
\<close>

record env =
  currentBranchPrecondition :: "error + string"
  metaStack :: "scope \<Rightarrow> string \<Rightarrow> string list option"
  validateStack :: "scope \<Rightarrow> string list \<Rightarrow> bool"
  isTrunk :: "string \<Rightarrow> bool"
  parentFromMeta :: "string \<Rightarrow> string option"
  isEmptyBranch :: "string \<Rightarrow> string \<Rightarrow> bool"
  interactive :: bool
  promptResponse :: prompt_result
  syncPRInfoForBranches :: "string list \<Rightarrow> world \<Rightarrow> world"
  getRepoOwner :: string
  getRepoName :: string
  getAppServerUrl :: string
  requestWithArgs :: "submit_params \<Rightarrow> http_response"
  cuteString :: "http_response \<Rightarrow> string"
  JSON_parse :: "string \<Rightarrow> json option"
  stringOf :: "json \<Rightarrow> string option"
  objectProtoKeys :: "string list"
  requestMember :: "pr_request \<Rightarrow> string \<Rightarrow> looked_up option"

definition emit :: "event list \<Rightarrow> world \<Rightarrow> world" where
  "emit es w = w\<lparr>out := out w @ es\<rparr>"

definition getPRInfo :: "world \<Rightarrow> string \<Rightarrow> pr_info option" where
  "getPRInfo w b = prInfos w b"

text \<open>\<open>b.getPRInfo()?.state\<close>\<close>

definition prState :: "world \<Rightarrow> string \<Rightarrow> pr_state option" where
  "prState w b = (case getPRInfo w b of None \<Rightarrow> None | Some i \<Rightarrow> state i)"

text \<open>The characters outside ASCII of the messages, as their UTF-8 bytes. The colours
  that chalk adds are left out: a styled text is the text.\<close>

definition pencil :: string where
  "pencil = [CHR 0xE2, CHR 0x9C, CHR 0x8F, CHR 0xEF, CHR 0xB8, CHR 0x8F]"

definition bullet :: string where
  "bullet = [CHR 0xE2, CHR 0x96, CHR 0xB8]"

definition newline :: string where
  "newline = [CHR 0x0A]"

subsection \<open>validate\_branches.ts\<close>

definition msgStep1 :: string where
  "msgStep1 = pencil @ ''  [Step 1] Validating that this Graphite stack is ready to submit...''"

text \<open>getStack is called for the three stack scopes only; its argument type has no
  \<open>BRANCH\<close>.\<close>

definition getStack :: "env \<Rightarrow> string \<Rightarrow> scope \<Rightarrow> string list option" where
  "getStack e currentBranch sc =
     (case sc of
        UPSTACK \<Rightarrow> metaStack e UPSTACK currentBranch
      | DOWNSTACK \<Rightarrow> metaStack e DOWNSTACK currentBranch
      | FULLSTACK \<Rightarrow> metaStack e FULLSTACK currentBranch
      | BRANCH \<Rightarrow> None)"

definition getAllBranchesToSubmit :: "env \<Rightarrow> scope \<Rightarrow> world \<Rightarrow> (error + string list) \<times> world" where
  "getAllBranchesToSubmit e sc w =
     (if sc = BRANCH then
        (case currentBranchPrecondition e of
           Inl err \<Rightarrow> (Inl err, w)
         | Inr currentBranch \<Rightarrow> (Inr [currentBranch], w))
      else
        (case currentBranchPrecondition e of
           Inl err \<Rightarrow> (Inl (ValidationFailedError ''Validation failed. Will not submit.''), w)
         | Inr currentBranch \<Rightarrow>
             (case getStack e currentBranch sc of
                None \<Rightarrow> (Inl (ValidationFailedError ''Validation failed. Will not submit.''), w)
              | Some stack \<Rightarrow>
                  if \<not> validateStack e sc stack
                  then (Inl (ValidationFailedError ''Validation failed. Will not submit.''), w)
                  else (Inr (filter (\<lambda>b. \<not> isTrunk e b) stack), emit [LogNewline] w))))"

definition msgRepoSync :: "bool \<Rightarrow> string" where
  "msgRepoSync hasMultipleBranches =
     ''If this is expected, you can use 'gt repo sync' to delete '' @
     (if hasMultipleBranches then ''these branches'' else ''this branch'') @
     '' locally and restack dependencies.''"

definition msgReopen :: "bool \<Rightarrow> string" where
  "msgReopen hasMultipleBranches =
     ''To submit '' @ (if hasMultipleBranches then ''these branches'' else ''this branch'') @
     '', please reopen the PR remotely.''"

definition hasAnyMergedBranches :: "string list \<Rightarrow> world \<Rightarrow> bool \<times> world" where
  "hasAnyMergedBranches branchesToSubmit w =
     (let mergedBranches = filter (\<lambda>b. prState w b = Some MERGED) branchesToSubmit in
      if length mergedBranches = 0 then (False, w)
      else
        let hasMultipleBranches = length mergedBranches > 1 in
        (True,
         emit ([LogError (''PR'' @ (if hasMultipleBranches then ''s'' else '''') @
                          '' for the following branch'' @
                          (if hasMultipleBranches then ''es have'' else '' has'') @
                          '' already been merged:'')] @
               map (\<lambda>b. LogError (bullet @ '' '' @ b)) mergedBranches @
               [LogError (msgRepoSync hasMultipleBranches)]) w))"

definition hasAnyClosedBranches :: "string list \<Rightarrow> world \<Rightarrow> bool \<times> world" where
  "hasAnyClosedBranches branchesToSubmit w =
     (let closedBranches = filter (\<lambda>b. prState w b = Some CLOSED) branchesToSubmit in
      if length closedBranches = 0 then (False, w)
      else
        let hasMultipleBranches = length closedBranches > 1 in
        (True,
         emit ([LogError (''PR'' @ (if hasMultipleBranches then ''s'' else '''') @
                          '' for the following branch'' @
                          (if hasMultipleBranches then ''es have'' else '' has'') @
                          '' been closed:'')] @
               map (\<lambda>b. LogError (bullet @ '' '' @ b)) closedBranches @
               [LogError (msgReopen hasMultipleBranches)]) w))"

definition msgNoParentToSubmit :: "string \<Rightarrow> string" where
  "msgNoParentToSubmit b =
     ''Could not find parent for branch '' @ b @
     '' to submit PR against. Please checkout '' @ b @
     '' and run `gt upstack onto <parent_branch>` to set its parent.''"

definition getBranchBaseName :: "env \<Rightarrow> string \<Rightarrow> error + string" where
  "getBranchBaseName e b =
     (case parentFromMeta e b of
        None \<Rightarrow> Inl (PreconditionsFailedError (msgNoParentToSubmit b))
      | Some parent \<Rightarrow> Inr parent)"

text \<open>
  \<open>submittableBranches.filter(...)\<close> with the callback of checkForEmptyBranches: the
  branches are tested in order, and the first one without a parent makes
  getBranchBaseName throw, which ends the filter.
\<close>

fun filterEmptyBranches :: "env \<Rightarrow> string list \<Rightarrow> error + string list" where
  "filterEmptyBranches e [] = Inr []"
| "filterEmptyBranches e (b # bs) =
     (case getBranchBaseName e b of
        Inl err \<Rightarrow> Inl err
      | Inr baseName \<Rightarrow>
          (case filterEmptyBranches e bs of
             Inl err \<Rightarrow> Inl err
           | Inr rest \<Rightarrow> Inr (if isEmptyBranch e b baseName then b # rest else rest)))"

definition checkForEmptyBranches :: "env \<Rightarrow> string list \<Rightarrow> world \<Rightarrow> (error + string list) \<times> world" where
  "checkForEmptyBranches e submittableBranches w =
     (case filterEmptyBranches e submittableBranches of
        Inl err \<Rightarrow> (Inl err, w)
      | Inr emptyBranches \<Rightarrow>
          if length emptyBranches = 0 then (Inr submittableBranches, w)
          else
            let hasMultipleBranches = length emptyBranches > 1;
                w1 = emit ([LogWarn (''The following branch'' @
                                     (if hasMultipleBranches then ''es have'' else '' has'') @
                                     '' no changes:'')] @
                           map (\<lambda>b. LogWarn (bullet @ '' '' @ b)) emptyBranches @
                           [LogWarn (''Are you sure you want to submit '' @
                                     (if hasMultipleBranches then ''them'' else ''it'') @ ''?''),
                            LogNewline]) w
            in if \<not> interactive e then (Inr [], w1)
               else
                 let w2 = emit [Prompt ''How would you like to proceed?''
                                 [(''Abort command and keep working on '' @
                                     (if hasMultipleBranches then ''these branches'' else ''this branch''),
                                   ''fix_manually''),
                                  (''Continue with empty branch'' @
                                     (if hasMultipleBranches then ''es'' else ''''),
                                   ''continue_empty'')]] w1
                 in case promptResponse e of
                      Cancelled \<Rightarrow> (Inl KilledError, w2)
                    | Selected empty_branches_options \<Rightarrow>
                        (Inr (if empty_branches_options = ''continue_empty''
                              then submittableBranches else []),
                         emit [LogNewline] w2))"

definition getValidBranchesToSubmit :: "env \<Rightarrow> scope \<Rightarrow> world \<Rightarrow> (error + string list) \<times> world" where
  "getValidBranchesToSubmit e sc w =
     (case getAllBranchesToSubmit e sc (emit [LogInfo msgStep1] w) of
        (Inl err, w1) \<Rightarrow> (Inl err, w1)
      | (Inr branchesToSubmit, w1) \<Rightarrow>
          (let w2 = syncPRInfoForBranches e branchesToSubmit w1;
               (merged, w3) = hasAnyMergedBranches branchesToSubmit w2
           in if merged then (Inr [], w3)
              else
                let (closed, w4) = hasAnyClosedBranches branchesToSubmit w3
                in if closed then (Inr [], w4)
                   else checkForEmptyBranches e branchesToSubmit w4))"

subsection \<open>The engine's PR info\<close>

definition emptyPrInfo :: pr_info where
  "emptyPrInfo =
     \<lparr>number = None, url = None, base = None, state = None, title = None, body = None,
      reviewDecision = None, draft = None\<rparr>"

fun setField :: "pr_info \<Rightarrow> pr_field \<Rightarrow> pr_info" where
  "setField i (Number n) = i\<lparr>number := Some n\<rparr>"
| "setField i (Url u) = i\<lparr>url := Some u\<rparr>"
| "setField i (Base b) = i\<lparr>base := b\<rparr>"
| "setField i (State s) = i\<lparr>state := Some s\<rparr>"
| "setField i (Title t) = i\<lparr>title := t\<rparr>"
| "setField i (Body t) = i\<lparr>body := t\<rparr>"
| "setField i (ReviewDecision d) = i\<lparr>reviewDecision := Some d\<rparr>"
| "setField i (Draft d) = i\<lparr>draft := Some d\<rparr>"

text \<open>
  Modelled from the spec: engine.upsertPrInfo is not among the sources. Spec 4.2:
  upsertPRInfo(b, patch) is a write to the PR info of \<open>b\<close>: the keys of the patch
  replace the stored values, the other keys stay, and a branch without PR info gets
  the patch as its PR info.
\<close>

definition upsertPrInfo :: "string \<Rightarrow> pr_field list \<Rightarrow> world \<Rightarrow> world" where
  "upsertPrInfo b patch w =
     w\<lparr>prInfos := (prInfos w)
          (b \<mapsto> foldl setField (case prInfos w b of None \<Rightarrow> emptyPrInfo | Some i \<Rightarrow> i) patch)\<rparr>"

subsection \<open>submit\_prs.ts\<close>

record submit_args =
  submissionInfo :: "pr_request list"
  arg_mergeWhenReady :: bool
  arg_trunkBranchName :: string

record submitted_pr =
  request :: looked_up
  response :: pr_response

text \<open>
  \<open>a?.name\<close> on a value that came out of JSON.parse, for a name that no prototype
  defines (response, data, message): undefined (None) on undefined and null, the
  member of that name on an object, undefined on every other value.
\<close>

fun optGet :: "json option \<Rightarrow> string \<Rightarrow> json option" where
  "optGet (Some (JObj members)) name = map_of members name"
| "optGet v name = None"

text \<open>parseSubmitError returns a value of any type; a string \<open>s\<close> is \<open>JStr s\<close>.\<close>

definition parseSubmitError :: "env \<Rightarrow> string \<Rightarrow> json" where
  "parseSubmitError e err =
     (case JSON_parse e err of
        None \<Rightarrow> JStr err
      | Some parsed \<Rightarrow>
          (case optGet (optGet (optGet (Some parsed) ''response'') ''data'') ''message'' of
             None \<Rightarrow> JStr err
           | Some JNull \<Rightarrow> JStr err
           | Some v \<Rightarrow> v))"

text \<open>A value inside a template literal.\<close>

definition templateString :: "env \<Rightarrow> json \<Rightarrow> string option" where
  "templateString e v = (case v of JStr s \<Rightarrow> Some s | _ \<Rightarrow> stringOf e v)"


definition SUCCESS_RESPONSE_CODE :: nat where
  "SUCCESS_RESPONSE_CODE = 200"

definition UNAUTHORIZED_RESPONSE_CODE :: nat where
  "UNAUTHORIZED_RESPONSE_CODE = 401"

text \<open>
  The assignments \<open>requests[prRequest.head] = prRequest\<close>, one per element of the
  submission, in order: \<open>requestsByHead infos head\<close> is the request last assigned
  under \<open>head\<close>, None when no request has that head.
\<close>

definition requestsByHead :: "pr_request list \<Rightarrow> string \<Rightarrow> pr_request option" where
  "requestsByHead infos = foldl (\<lambda>requests prRequest. requests(head prRequest \<mapsto> prRequest)) Map.empty infos"

text \<open>
  The read \<open>requests[head]\<close>. \<open>requests\<close> starts as \<open>{}\<close>, a plain object, so a head
  under which nothing was assigned is looked up along the prototype chain. An assigned
  head reads the request last assigned under it: it is an own property, or, for the head
  \<open>__proto__\<close>, the prototype that the assignment has installed. Otherwise, when a
  request was assigned under \<open>__proto__\<close>, that request is the prototype of the table and
  its own properties are found first; then come the names of \<open>Object.prototype\<close>; any
  other head reads as undefined.
\<close>

definition lookupRequest :: "env \<Rightarrow> pr_request list \<Rightarrow> string \<Rightarrow> looked_up" where
  "lookupRequest e infos h =
     (case requestsByHead infos h of
        Some r \<Rightarrow> Found r
      | None \<Rightarrow>
          (case (case requestsByHead infos ''__proto__'' of
                   None \<Rightarrow> None
                 | Some proto \<Rightarrow> requestMember e proto h) of
             Some v \<Rightarrow> v
           | None \<Rightarrow> if h \<in> set (objectProtoKeys e) then Inherited else Undefined))"

definition msgAuth :: "env \<Rightarrow> string" where
  "msgAuth e =
     ''Your Graphite auth token is invalid/expired.'' @ newline @ newline @
     ''Please obtain a new auth token by visiting '' @ getAppServerUrl e @ ''/activate''"

definition formattedHeaders :: "http_response \<Rightarrow> string" where
  "formattedHeaders r =
     ''  x-graphite-request-id: '' @
     (case requestIdHeader r of
        None \<Rightarrow> ''<empty>''
      | Some v \<Rightarrow> if v = [] then ''<empty>'' else v)"

definition msgUnexpected :: "env \<Rightarrow> http_response \<Rightarrow> string" where
  "msgUnexpected e r =
     ''Unexpected server response ('' @ show_nat (status r) @ '').'' @ newline @ newline @
     ''Headers:'' @ newline @ formattedHeaders r @ newline @ newline @
     ''Response: '' @ cuteString e r"

definition submitParams :: "env \<Rightarrow> submit_args \<Rightarrow> submit_params" where
  "submitParams e args =
     \<lparr>repoOwner = getRepoOwner e, repoName = getRepoName e,
      mergeWhenReady = arg_mergeWhenReady args,
      trunkBranchName = arg_trunkBranchName args,
      prs = submissionInfo args\<rparr>"

definition requestServerToSubmitPRs ::
  "env \<Rightarrow> submit_args \<Rightarrow> world \<Rightarrow> (error + submitted_pr list) \<times> world" where
  "requestServerToSubmitPRs e args w =
     (let params = submitParams e args;
          w1 = emit [ConsoleLog (submissionInfo args), SubmitRequest params] w;
          resp = requestWithArgs e params
      in if status resp = SUCCESS_RESPONSE_CODE \<and> bodyPresent resp then
           (Inr (map (\<lambda>prResponse.
                        \<lparr>request = lookupRequest e (submissionInfo args) (response_head prResponse),
                         response = prResponse\<rparr>)
                     (response_prs resp)), w1)
         else if status resp = UNAUTHORIZED_RESPONSE_CODE then
           (Inl (PreconditionsFailedError (msgAuth e)), w1)
         else
           (Inl (ExitFailedError (msgUnexpected e resp)), w1))"

fun statusText :: "ok_status \<Rightarrow> string" where
  "statusText Updated = ''updated''"
| "statusText Created = ''created''"

text \<open>
  The object literal that submitPullRequest passes to upsertPrInfo: number, url, base and
  state always; title, body and reviewDecision for a request that creates the PR; draft
  when the request says so.
\<close>

definition upsertPatch :: "nat \<Rightarrow> string \<Rightarrow> pr_request \<Rightarrow> pr_field list" where
  "upsertPatch prNumber prURL req =
     [Number prNumber, Url prURL, Base (Some (req_base req)), State OPEN] @
     (if action req = Create
      then [Title (req_title req), Body (req_body req), ReviewDecision ''REVIEW_REQUIRED'']
      else []) @
     (case req_draft req of Some d \<Rightarrow> [Draft d] | None \<Rightarrow> [])"

text \<open>
  submitPullRequest reads element 0 of the list that requestServerToSubmitPRs returns.
  Reading a property of undefined throws a TypeError: for \<open>pr.response\<close> when the
  list is empty, for \<open>pr.request.base\<close> when \<open>requests[head]\<close> was undefined. When
  \<open>pr.request\<close> is an inherited value, its base and draft are undefined and its action
  is not \<open>create\<close>: the PR info is written with the number, the URL, an undefined base
  and state OPEN.
\<close>

definition submitPullRequest :: "env \<Rightarrow> submit_args \<Rightarrow> world \<Rightarrow> (error + unit) \<times> world" where
  "submitPullRequest e args w =
     (case requestServerToSubmitPRs e args w of
        (Inl err, w1) \<Rightarrow> (Inl err, w1)
      | (Inr [], w1) \<Rightarrow> (Inl TypeError, w1)
      | (Inr (pr # others), w1) \<Rightarrow>
          (case response pr of
             SubmitFailed h err \<Rightarrow>
               (case templateString e (parseSubmitError e err) of
                  None \<Rightarrow> (Inl TypeError, w1)
                | Some m \<Rightarrow>
                    (Inl (ExitFailedError (''Failed to submit PR for '' @ h @ '': '' @ m)), w1))
           | Submitted h st prNumber prURL \<Rightarrow>
               (case request pr of
                  Undefined \<Rightarrow> (Inl TypeError, w1)
                | Inherited \<Rightarrow>
                    (let w2 = upsertPrInfo h [Number prNumber, Url prURL, Base None, State OPEN] w1
                     in (Inr (),
                         emit [SplogInfo (h @ '': '' @ prURL @ '' ('' @ statusText st @ '')'')] w2))
                | Found req \<Rightarrow>
                    (let w2 = upsertPrInfo h (upsertPatch prNumber prURL req) w1
                     in (Inr (),
                         emit [SplogInfo (h @ '': '' @ prURL @ '' ('' @ statusText st @ '')'')] w2)))))"

subsection \<open>Notions used to state the properties of the submit pipeline\<close>

text \<open>The lines that hasAnyMergedBranches and hasAnyClosedBranches print when they
  answer true.\<close>

definition mergedReport :: "world \<Rightarrow> string list \<Rightarrow> event list" where
  "mergedReport w bs =
     (let mergedBranches = filter (\<lambda>b. prState w b = Some MERGED) bs;
          hasMultipleBranches = length mergedBranches > 1
      in [LogError (''PR'' @ (if hasMultipleBranches then ''s'' else '''') @
                    '' for the following branch'' @
                    (if hasMultipleBranches then ''es have'' else '' has'') @
                    '' already been merged:'')] @
         map (\<lambda>b. LogError (bullet @ '' '' @ b)) mergedBranches @
         [LogError (msgRepoSync hasMultipleBranches)])"

definition closedReport :: "world \<Rightarrow> string list \<Rightarrow> event list" where
  "closedReport w bs =
     (let closedBranches = filter (\<lambda>b. prState w b = Some CLOSED) bs;
          hasMultipleBranches = length closedBranches > 1
      in [LogError (''PR'' @ (if hasMultipleBranches then ''s'' else '''') @
                    '' for the following branch'' @
                    (if hasMultipleBranches then ''es have'' else '' has'') @
                    '' been closed:'')] @
         map (\<lambda>b. LogError (bullet @ '' '' @ b)) closedBranches @
         [LogError (msgReopen hasMultipleBranches)])"

text \<open>The warning of checkForEmptyBranches about the empty branches \<open>es\<close>.\<close>

definition emptyWarning :: "string list \<Rightarrow> event list" where
  "emptyWarning es =
     [LogWarn (''The following branch'' @ (if length es > 1 then ''es have'' else '' has'') @
               '' no changes:'')] @
     map (\<lambda>b. LogWarn (bullet @ '' '' @ b)) es @
     [LogWarn (''Are you sure you want to submit '' @ (if length es > 1 then ''them'' else ''it'') @ ''?''),
      LogNewline]"

subsection \<open>A concrete context: submitting the stack main, A, B, C\<close>

text \<open>
  The stack \<open>main \<rightarrow> A \<rightarrow> B \<rightarrow> C\<close> of spec section 8, seen from branch \<open>C\<close>, in a
  process that is not interactive. Branch \<open>B\<close> has no changes against its
  parent. The review host answers 401.
\<close>

definition demo_env :: env where
  "demo_env =
     \<lparr>currentBranchPrecondition = Inr ''C'',
      metaStack = (\<lambda>sc b. Some [''main'', ''A'', ''B'', ''C'']),
      validateStack = (\<lambda>sc bs. True),
      isTrunk = (\<lambda>b. b = ''main''),
      parentFromMeta = [''A'' \<mapsto> ''main'', ''B'' \<mapsto> ''A'', ''C'' \<mapsto> ''B''],
      isEmptyBranch = (\<lambda>b p. b = ''B''),
      interactive = False,
      promptResponse = Selected ''continue_empty'',
      syncPRInfoForBranches = (\<lambda>bs w. w),
      getRepoOwner = ''owner'',
      getRepoName = ''repo'',
      getAppServerUrl = ''https://app.graphite.dev'',
      requestWithArgs = (\<lambda>p. \<lparr>status = 401, bodyPresent = False, requestIdHeader = None,
                                response_prs = []\<rparr>),
      cuteString = (\<lambda>r. ''{}''),
      JSON_parse = (\<lambda>s. None),
      stringOf = (\<lambda>v. None),
      objectProtoKeys = [''constructor'', ''hasOwnProperty'', ''isPrototypeOf'',
                         ''propertyIsEnumerable'', ''toLocaleString'', ''toString'', ''valueOf'',
                         ''__proto__''],
      requestMember = (\<lambda>r name. if name \<in> set [''action'', ''head'', ''base'']
                                   then Some Inherited else None)\<rparr>"

definition mergedPrInfo :: pr_info where
  "mergedPrInfo = emptyPrInfo\<lparr>number := Some 7, state := Some MERGED\<rparr>"

text \<open>The meta store in which the PR of \<open>C\<close> is merged (scenario 8.2), and the empty one.\<close>

definition merged_world :: world where
  "merged_world = \<lparr>prInfos = [''C'' \<mapsto> mergedPrInfo], out = []\<rparr>"

definition closedPrInfo :: pr_info where
  "closedPrInfo = emptyPrInfo\<lparr>number := Some 5, state := Some CLOSED\<rparr>"

text \<open>The meta store in which the PR of \<open>A\<close> is closed and the PR of \<open>C\<close> is merged.\<close>

definition closed_merged_world :: world where
  "closed_merged_world = \<lparr>prInfos = [''A'' \<mapsto> closedPrInfo, ''C'' \<mapsto> mergedPrInfo], out = []\<rparr>"

definition empty_world :: world where
  "empty_world = \<lparr>prInfos = Map.empty, out = []\<rparr>"

text \<open>The same context where \<open>X\<close>, a branch without a parent in meta, is submitted next
  to the empty branch \<open>B\<close>.\<close>

definition orphan_env :: env where
  "orphan_env = demo_env\<lparr>parentFromMeta := [''B'' \<mapsto> ''A'']\<rparr>"

text \<open>The same context in an interactive process; the user chooses to continue.\<close>

definition asking_env :: env where
  "asking_env = demo_env\<lparr>interactive := True\<rparr>"

text \<open>A submission of two new PRs, for \<open>A\<close> and \<open>B\<close>, which the review host accepts.\<close>

definition requestA :: pr_request where
  "requestA = \<lparr>action = Create, head = ''A'', req_base = ''main'', req_title = Some ''a'',
               req_body = None, req_draft = None\<rparr>"

definition requestB :: pr_request where
  "requestB = \<lparr>action = Create, head = ''B'', req_base = ''A'', req_title = Some ''b'',
               req_body = None, req_draft = Some True\<rparr>"

definition batch_args :: submit_args where
  "batch_args = \<lparr>submissionInfo = [requestA, requestB], arg_mergeWhenReady = False,
                 arg_trunkBranchName = ''main''\<rparr>"

definition batch_env :: env where
  "batch_env =
     demo_env\<lparr>requestWithArgs :=
       (\<lambda>p. \<lparr>status = 200, bodyPresent = True, requestIdHeader = None,
              response_prs = [Submitted ''A'' Created 1 ''https://host/pull/1'',
                              Submitted ''B'' Created 2 ''https://host/pull/2'']\<rparr>)\<rparr>"



text \<open>The review host answers 500 with a request id.\<close>

definition broken_env :: env where
  "broken_env =
     demo_env\<lparr>requestWithArgs :=
       (\<lambda>p. \<lparr>status = 500, bodyPresent = True, requestIdHeader = Some ''req-42'',
              response_prs = []\<rparr>)\<rparr>"

text \<open>The review host answers the batch with a PR for the head \<open>constructor\<close>, which no
  request has.\<close>

definition stray_env :: env where
  "stray_env =
     demo_env\<lparr>requestWithArgs :=
       (\<lambda>p. \<lparr>status = 200, bodyPresent = True, requestIdHeader = None,
              response_prs = [Submitted ''constructor'' Created 3 ''https://host/pull/3'']\<rparr>)\<rparr>"


section \<open>Properties of restack\<close>

subsection \<open>restackBranch is a rebase step followed by the loop over the children\<close>


declare restackBranch.simps(2) [simp del]



















subsection \<open>A failed Git command is the last operation of the run\<close>






subsection \<open>The checks of restackBranch\<close>

text \<open>
  Against claim C6 as stated. restackBranch does not look at the working tree: with
  uncommitted changes, and the other three conditions met, it writes the prevRef of the
  branch and runs the rebase (which Git refuses here), instead of exiting with meta
  untouched.
\<close>

theorem restackBranch_uncommitted_counterexample:
  "uncommittedChanges dirty_ops (git scenario_repo) \<and>
   restackBranch dirty_ops (Suc 0) ''C'' scenario_repo =
     GitFailed (Rebase ''B'' ''fork-C'' ''C'')
       (scenario_repo\<lparr>metaPrevRef := [''C'' \<mapsto> ''tip-C''],
          trace := [SetPrevRef ''C'' ''tip-C'', Checkout ''C'', Rebase ''B'' ''fork-C'' ''C'']\<rparr>)"
  by (simp add: restackBranch.simps(2) dirty_ops_def scenario_ops_def scenario_repo_def
        getParentFromMeta_def getMetaMergeBase_def setMetaPrevRef_def runRebase_def)

text \<open>
  Claim C6, amended. Before any rebase or meta write, restackBranch requires that no
  rebase is in progress, that the branch has a parent in meta and that a merge base
  exists (and is not the empty string); if one of the three fails it exits with the
  matching message and leaves Git, meta and the trace as they were. That there are no
  uncommitted changes is required by the command: \<open>execute\<close> checks it once, first of
  all, and exits before anything is touched.
\<close>

theorem restackBranch_preconditions:
  "(rebaseInProgress ops (git s) \<or> getParentFromMeta s b = None \<or>
    getMetaMergeBase ops s b = None \<or> getMetaMergeBase ops s b = Some []
    \<longrightarrow> restackBranch ops (Suc n) b s =
          Exited (if rebaseInProgress ops (git s) then msgRebaseInProgress b
                  else if getParentFromMeta s b = None then msgNoParent b
                  else msgNoMergeBase b) s)
   \<and> (uncommittedChanges ops (git s)
    \<longrightarrow> execute ops fuel onto s = Exited ''Cannot restack with uncommitted changes'' s)"
  by (auto simp: restackBranch.simps(2) execute_def split: option.splits)

text \<open>
  In the stack \<open>main \<rightarrow> A \<rightarrow> B \<rightarrow> C\<close>, restackBranch on \<open>main\<close>, which has no parent,
  exits; and the command exits on a dirty working tree.
\<close>

theorem restackBranch_preconditions_witness:
  "getParentFromMeta scenario_repo ''main'' = None \<and>
   restackBranch scenario_ops (Suc 0) ''main'' scenario_repo = Exited (msgNoParent ''main'') scenario_repo \<and>
   uncommittedChanges dirty_ops (git scenario_repo) \<and>
   execute dirty_ops 3 None scenario_repo = Exited ''Cannot restack with uncommitted changes'' scenario_repo"
proof -
  have h1: "getParentFromMeta scenario_repo ''main'' = None"
    by (simp add: getParentFromMeta_def scenario_repo_def)
  have h2: "uncommittedChanges dirty_ops (git scenario_repo)"
    by (simp add: dirty_ops_def)
  have h3: "\<not> rebaseInProgress scenario_ops (git scenario_repo)"
    by (simp add: scenario_ops_def)
  from restackBranch_preconditions[of scenario_ops scenario_repo "''main''" 0] h1 h3
  have c1: "restackBranch scenario_ops (Suc 0) ''main'' scenario_repo = Exited (msgNoParent ''main'') scenario_repo"
    by simp
  from restackBranch_preconditions[of dirty_ops scenario_repo _ _ 3 None] h2
  have c2: "execute dirty_ops 3 None scenario_repo = Exited ''Cannot restack with uncommitted changes'' scenario_repo"
    by simp
  from h1 c1 h2 c2 show ?thesis by blast
qed

subsection \<open>The gates of restack --onto\<close>

lemma show_nat_0: "show_nat 0 = ''0''"
  by (simp add: show_nat.simps)

text \<open>
  Claim C8, on the code. checkBranchCanBeMoved tests \<open>branch.name in trunkBranches\<close>,
  which on the array \<open>["main"]\<close> is true for the names \<open>0\<close> and \<open>length\<close> (and the
  inherited ones), not for \<open>main\<close>. So the trunk \<open>main\<close> passes the check that is
  meant to refuse it; here it has a parent in meta, validation succeeds, and
  \<open>restack --onto feature\<close> rebases \<open>main\<close> and rewrites its parent.
\<close>

theorem restackOnto_trunk_not_refused:
  "trunkBranches scenario_ops = Some [''main''] \<and>
   checkBranchCanBeMoved scenario_ops ''main'' (Some ''feature'') = None \<and>
   restackOnto scenario_ops 0 ''main'' ''feature'' trunk_repo =
     Done (trunk_repo\<lparr>metaParent := [''main'' \<mapsto> ''feature''],
             metaPrevRef := [''main'' \<mapsto> ''tip-main''],
             trace := [SetPrevRef ''main'' ''tip-main'', Rebase ''feature'' ''fork-main'' ''main'',
                       SetParent ''main'' ''feature'']\<rparr>)"
  by (simp add: restackOnto_def checkBranchCanBeMoved_def js_in_def arrayOwnKeys_def show_nat_0
        validate_def getParentForRebaseOnto_def getParentFromMeta_def mergeBaseOutput_def
        setMetaPrevRef_def setParentBranchName_def runRebase_def getChildrenFromMeta_def
        scenario_ops_def trunk_repo_def)

text \<open>What the three gates of restackOnto do when they close: the state is returned as it
  was. The first gate closes on the names that \<open>in\<close> finds among the keys of the array.\<close>

lemma restackOnto_gates:
  "(checkBranchCanBeMoved ops b (Some onto) = Some msg \<longrightarrow> restackOnto ops fuel b onto s = Exited msg s)
   \<and> (checkBranchCanBeMoved ops b (Some onto) = None \<and> \<not> validateCommand ops s
        \<longrightarrow> restackOnto ops fuel b onto s = Exited msgValidate s)
   \<and> (checkBranchCanBeMoved ops b (Some onto) = None \<and> validateCommand ops s \<and> getParentFromMeta s b = None
        \<longrightarrow> restackOnto ops fuel b onto s = Exited (msgOntoNoParent b) s)"
  by (simp add: restackOnto_def validate_def getParentForRebaseOnto_def)

lemma checkBranchCanBeMoved_iff:
  "checkBranchCanBeMoved ops b onto \<noteq> None \<longleftrightarrow>
     (\<exists>ts. trunkBranches ops = Some ts \<and>
        (b \<in> set (map show_nat [0..<length ts]) \<or> b = ''length'' \<or> b \<in> set (arrayProtoKeys ops)))"
  by (auto simp: checkBranchCanBeMoved_def js_in_def arrayOwnKeys_def split: option.splits)

subsection \<open>A successful restack --onto\<close>






section \<open>Properties of the submit pipeline\<close>

subsection \<open>The gate on merged and closed PRs\<close>

lemma prState_emit [simp]: "prState (emit es w) = prState w"
  by (simp add: prState_def getPRInfo_def emit_def fun_eq_iff)

lemma prInfos_emit [simp]: "prInfos (emit es w) = prInfos w"
  by (simp add: emit_def)

lemma hasAnyMergedBranches_cases:
  "hasAnyMergedBranches bs w =
     (if \<exists>b \<in> set bs. prState w b = Some MERGED
      then (True, emit (mergedReport w bs) w)
      else (False, w))"
  by (auto simp: hasAnyMergedBranches_def mergedReport_def Let_def filter_empty_conv)

lemma hasAnyClosedBranches_cases:
  "hasAnyClosedBranches bs w =
     (if \<exists>b \<in> set bs. prState w b = Some CLOSED
      then (True, emit (closedReport w bs) w)
      else (False, w))"
  by (auto simp: hasAnyClosedBranches_def closedReport_def Let_def filter_empty_conv)

lemma mergedReport_errors: "ev \<in> set (mergedReport w bs) \<Longrightarrow> \<exists>m. ev = LogError m"
  by (auto simp: mergedReport_def Let_def)

lemma closedReport_errors: "ev \<in> set (closedReport w bs) \<Longrightarrow> \<exists>m. ev = LogError m"
  by (auto simp: closedReport_def Let_def)

text \<open>
  Against claim C2 as stated. The PR of \<open>A\<close> is closed and the PR of \<open>C\<close> is merged.
  getValidBranchesToSubmit returns the empty list and prints the report about the
  merged branch, ending with the advice to run \<open>gt repo sync\<close>; then \<open>||\<close> has its
  answer and hasAnyClosedBranches is not called: no line tells the user to reopen the
  PR of \<open>A\<close>.
\<close>

theorem getValidBranchesToSubmit_closed_and_merged_counterexample:
  "prState (syncPRInfoForBranches demo_env [''A'', ''B'', ''C'']
              (emit [LogInfo msgStep1, LogNewline] closed_merged_world)) ''A'' = Some CLOSED \<and>
   getValidBranchesToSubmit demo_env FULLSTACK closed_merged_world =
     (Inr [],
      closed_merged_world
        \<lparr>out := [LogInfo msgStep1, LogNewline,
                 LogError ''PR for the following branch has already been merged:'',
                 LogError (bullet @ '' C''),
                 LogError ''If this is expected, you can use 'gt repo sync' to delete this branch locally and restack dependencies.'']\<rparr>) \<and>
   LogError ''To submit this branch, please reopen the PR remotely.'' \<notin>
     set (out (snd (getValidBranchesToSubmit demo_env FULLSTACK closed_merged_world))) \<and>
   LogError ''To submit these branches, please reopen the PR remotely.'' \<notin>
     set (out (snd (getValidBranchesToSubmit demo_env FULLSTACK closed_merged_world)))"
proof -
  let ?w1 = "emit [LogInfo msgStep1, LogNewline] closed_merged_world"
  have h1: "getAllBranchesToSubmit demo_env FULLSTACK (emit [LogInfo msgStep1] closed_merged_world) =
              (Inr [''A'', ''B'', ''C''], ?w1)"
    by (simp add: getAllBranchesToSubmit_def getStack_def demo_env_def emit_def)
  have sync: "syncPRInfoForBranches demo_env bs w = w" for bs w
    by (simp add: demo_env_def)
  have st: "prState closed_merged_world ''A'' = Some CLOSED" "prState closed_merged_world ''B'' = None"
      "prState closed_merged_world ''C'' = Some MERGED"
    by (simp_all add: prState_def getPRInfo_def closed_merged_world_def mergedPrInfo_def
          closedPrInfo_def emptyPrInfo_def)
  have run: "getValidBranchesToSubmit demo_env FULLSTACK closed_merged_world =
               (Inr [], emit (mergedReport ?w1 [''A'', ''B'', ''C'']) ?w1)"
    by (simp add: getValidBranchesToSubmit_def h1 sync hasAnyMergedBranches_cases st Let_def)
  have lines: "mergedReport ?w1 [''A'', ''B'', ''C''] =
      [LogError ''PR for the following branch has already been merged:'',
       LogError (bullet @ '' C''),
       LogError ''If this is expected, you can use 'gt repo sync' to delete this branch locally and restack dependencies.'']"
    using st by (simp add: mergedReport_def msgRepoSync_def)
  have c1: "prState (syncPRInfoForBranches demo_env [''A'', ''B'', ''C''] ?w1) ''A'' = Some CLOSED"
    by (simp add: sync st)
  have c2: "getValidBranchesToSubmit demo_env FULLSTACK closed_merged_world =
     (Inr [],
      closed_merged_world
        \<lparr>out := [LogInfo msgStep1, LogNewline,
                 LogError ''PR for the following branch has already been merged:'',
                 LogError (bullet @ '' C''),
                 LogError ''If this is expected, you can use 'gt repo sync' to delete this branch locally and restack dependencies.'']\<rparr>)"
    unfolding run lines by (simp add: emit_def closed_merged_world_def)
  have c3: "LogError ''To submit this branch, please reopen the PR remotely.'' \<notin>
     set (out (snd (getValidBranchesToSubmit demo_env FULLSTACK closed_merged_world)))"
    unfolding c2 by (simp add: bullet_def msgStep1_def pencil_def)
  have c4: "LogError ''To submit these branches, please reopen the PR remotely.'' \<notin>
     set (out (snd (getValidBranchesToSubmit demo_env FULLSTACK closed_merged_world)))"
    unfolding c2 by (simp add: bullet_def msgStep1_def pencil_def)
  from c1 c2 c3 c4 show ?thesis by blast
qed

text \<open>
  Claim C2, amended. Let \<open>bs\<close> be the branches to submit and \<open>ws\<close> the state after PR
  sync. If some branch of \<open>bs\<close> has a PR in state MERGED or CLOSED in \<open>ws\<close>,
  getValidBranchesToSubmit returns the empty list. Since the sync it has only printed
  the error lines \<open>report\<close>: the PR info of the meta store is that of \<open>ws\<close>, and no
  request was sent to the review host. When some PR is merged, the report names the
  merged branches and ends with the advice to use \<open>gt repo sync\<close>, whether or not a PR
  is closed as well. When a PR is closed and none is merged, the report names the closed
  branches and ends with the request to reopen the PR remotely.
\<close>

theorem getValidBranchesToSubmit_merged_or_closed:
  assumes "getAllBranchesToSubmit e sc (emit [LogInfo msgStep1] w) = (Inr bs, w1)"
    and "ws = syncPRInfoForBranches e bs w1"
    and "\<exists>b \<in> set bs. prState ws b = Some MERGED \<or> prState ws b = Some CLOSED"
    and "merged = filter (\<lambda>b. prState ws b = Some MERGED) bs"
    and "closed = filter (\<lambda>b. prState ws b = Some CLOSED) bs"
    and "report =
           (if merged \<noteq> [] then
              [LogError (''PR'' @ (if 1 < length merged then ''s'' else '''') @
                         '' for the following branch'' @
                         (if 1 < length merged then ''es have'' else '' has'') @
                         '' already been merged:'')] @
              map (\<lambda>b. LogError ([CHR 0xE2, CHR 0x96, CHR 0xB8] @ '' '' @ b)) merged @
              [LogError (''If this is expected, you can use 'gt repo sync' to delete '' @
                         (if 1 < length merged then ''these branches'' else ''this branch'') @
                         '' locally and restack dependencies.'')]
            else
              [LogError (''PR'' @ (if 1 < length closed then ''s'' else '''') @
                         '' for the following branch'' @
                         (if 1 < length closed then ''es have'' else '' has'') @
                         '' been closed:'')] @
              map (\<lambda>b. LogError ([CHR 0xE2, CHR 0x96, CHR 0xB8] @ '' '' @ b)) closed @
              [LogError (''To submit '' @
                         (if 1 < length closed then ''these branches'' else ''this branch'') @
                         '', please reopen the PR remotely.'')])"
  shows "getValidBranchesToSubmit e sc w = (Inr [], emit report ws) \<and>
         prInfos (emit report ws) = prInfos ws \<and>
         out (emit report ws) = out ws @ report \<and>
         (\<forall>ev \<in> set report. \<exists>m. ev = LogError m)"
proof -
  have rep: "report = (if \<exists>b \<in> set bs. prState ws b = Some MERGED
                       then mergedReport ws bs else closedReport ws bs)"
    using assms(4,5,6)
    by (auto simp: mergedReport_def closedReport_def msgRepoSync_def msgReopen_def bullet_def
          Let_def filter_empty_conv)
  show ?thesis
  proof (cases "\<exists>b \<in> set bs. prState ws b = Some MERGED")
    case True
    with assms(1,2) rep have "getValidBranchesToSubmit e sc w = (Inr [], emit report ws)"
      by (simp add: getValidBranchesToSubmit_def hasAnyMergedBranches_cases Let_def)
    with True rep show ?thesis
      by (auto simp: emit_def dest: mergedReport_errors)
  next
    case False
    with assms(3) have c: "\<exists>b \<in> set bs. prState ws b = Some CLOSED" by auto
    with False assms(1,2) rep have "getValidBranchesToSubmit e sc w = (Inr [], emit report ws)"
      by (simp add: getValidBranchesToSubmit_def hasAnyMergedBranches_cases
            hasAnyClosedBranches_cases Let_def)
    with False rep show ?thesis
      by (auto simp: emit_def dest: closedReport_errors)
  qed
qed

text \<open>Scenario 8.2: the PR of \<open>C\<close> is merged and the full stack is submitted.\<close>

theorem getValidBranchesToSubmit_merged_or_closed_witness:
  "getValidBranchesToSubmit demo_env FULLSTACK merged_world =
     (Inr [],
      emit [LogError ''PR for the following branch has already been merged:'',
            LogError ([CHR 0xE2, CHR 0x96, CHR 0xB8] @ '' C''),
            LogError ''If this is expected, you can use 'gt repo sync' to delete this branch locally and restack dependencies.'']
        (emit [LogInfo msgStep1, LogNewline] merged_world))"
proof -
  let ?w1 = "emit [LogInfo msgStep1, LogNewline] merged_world"
  have h1: "getAllBranchesToSubmit demo_env FULLSTACK (emit [LogInfo msgStep1] merged_world) = (Inr [''A'', ''B'', ''C''], ?w1)"
    by (simp add: getAllBranchesToSubmit_def getStack_def demo_env_def emit_def)
  have h2: "?w1 = syncPRInfoForBranches demo_env [''A'', ''B'', ''C''] ?w1"
    by (simp add: demo_env_def)
  have st: "prState ?w1 ''C'' = Some MERGED" "prState ?w1 ''A'' = None" "prState ?w1 ''B'' = None"
    by (simp_all add: prState_def getPRInfo_def merged_world_def mergedPrInfo_def)
  then have h3: "\<exists>b \<in> set [''A'', ''B'', ''C'']. prState ?w1 b = Some MERGED \<or> prState ?w1 b = Some CLOSED"
    by simp
  have h4: "[''C''] = filter (\<lambda>b. prState ?w1 b = Some MERGED) [''A'', ''B'', ''C'']"
    using st by simp
  have h5: "[] = filter (\<lambda>b. prState ?w1 b = Some CLOSED) [''A'', ''B'', ''C'']"
    using st by simp
  from getValidBranchesToSubmit_merged_or_closed[OF h1 h2 h3 h4 h5 refl, THEN conjunct1]
  show ?thesis by simp
qed

subsection \<open>The check for empty branches\<close>

lemma filterEmptyBranches_parents:
  "\<forall>b \<in> set bs. parentFromMeta e b \<noteq> None \<Longrightarrow>
   filterEmptyBranches e bs = Inr (filter (\<lambda>b. isEmptyBranch e b (the (parentFromMeta e b))) bs)"
  by (induction bs) (auto simp: getBranchBaseName_def)

lemma filterEmptyBranches_sublist:
  "filterEmptyBranches e bs = Inr es \<Longrightarrow> set es \<subseteq> set bs"
  by (induction bs arbitrary: es) (auto split: sum.splits if_splits)

lemma checkForEmptyBranches_cases:
  assumes "filterEmptyBranches e bs = Inr es"
  shows "checkForEmptyBranches e bs w =
     (if es = [] then (Inr bs, w)
      else if \<not> interactive e then (Inr [], emit (emptyWarning es) w)
      else case promptResponse e of
             Cancelled \<Rightarrow> (Inl KilledError, emit [Prompt ''How would you like to proceed?''
                                 [(''Abort command and keep working on '' @
                                     (if length es > 1 then ''these branches'' else ''this branch''),
                                   ''fix_manually''),
                                  (''Continue with empty branch'' @
                                     (if length es > 1 then ''es'' else ''''),
                                   ''continue_empty'')]] (emit (emptyWarning es) w))
           | Selected v \<Rightarrow> (Inr (if v = ''continue_empty'' then bs else []),
                emit [LogNewline] (emit [Prompt ''How would you like to proceed?''
                                 [(''Abort command and keep working on '' @
                                     (if length es > 1 then ''these branches'' else ''this branch''),
                                   ''fix_manually''),
                                  (''Continue with empty branch'' @
                                     (if length es > 1 then ''es'' else ''''),
                                   ''continue_empty'')]] (emit (emptyWarning es) w))))"
  using assms
  by (simp add: checkForEmptyBranches_def emptyWarning_def Let_def split: prompt_result.split)

text \<open>
  Against claim C5 as stated. In a process that is not interactive, the submit set
  \<open>[B, X]\<close> has the empty branch \<open>B\<close>; \<open>X\<close> has no parent in meta. The filter over the
  set asks for the base of \<open>X\<close>, getBranchBaseName throws, and checkForEmptyBranches
  ends with that error instead of returning the empty list.
\<close>

theorem checkForEmptyBranches_missing_parent_counterexample:
  "\<not> interactive orphan_env \<and>
   parentFromMeta orphan_env ''B'' = Some ''A'' \<and>
   isEmptyBranch orphan_env ''B'' ''A'' \<and>
   checkForEmptyBranches orphan_env [''B'', ''X''] empty_world =
     (Inl (PreconditionsFailedError (msgNoParentToSubmit ''X'')), empty_world)"
  by (simp add: orphan_env_def demo_env_def checkForEmptyBranches_def getBranchBaseName_def)

text \<open>
  Claim C5, amended. For every submit set in which every branch has a parent in meta
  and at least one branch has an empty diff against its parent, when the process is not
  interactive, checkForEmptyBranches returns the empty list. It has printed the warning
  about the empty branches \<open>es\<close> and nothing else: no prompt, no request to the review
  host, and the PR info is untouched.
\<close>

theorem checkForEmptyBranches_non_interactive:
  assumes "\<not> interactive e"
    and "\<forall>b \<in> set bs. parentFromMeta e b \<noteq> None"
    and "\<exists>b \<in> set bs. isEmptyBranch e b (the (parentFromMeta e b))"
    and "es = filter (\<lambda>b. isEmptyBranch e b (the (parentFromMeta e b))) bs"
  shows "checkForEmptyBranches e bs w = (Inr [], emit (emptyWarning es) w) \<and>
         emptyWarning es \<noteq> [] \<and>
         (\<forall>ev \<in> set (emptyWarning es). (\<exists>m. ev = LogWarn m) \<or> ev = LogNewline) \<and>
         prInfos (emit (emptyWarning es) w) = prInfos w"
proof -
  from assms(2,4) have f: "filterEmptyBranches e bs = Inr es"
    by (simp add: filterEmptyBranches_parents)
  from assms(3,4) have ne: "es \<noteq> []" by (auto simp: filter_empty_conv)
  from checkForEmptyBranches_cases[OF f] ne assms(1)
  have "checkForEmptyBranches e bs w = (Inr [], emit (emptyWarning es) w)" by simp
  then show ?thesis by (auto simp: emptyWarning_def)
qed

text \<open>Scenario 8.4, with \<open>C\<close> on top of the empty branch \<open>B\<close>.\<close>

theorem checkForEmptyBranches_non_interactive_witness:
  "checkForEmptyBranches demo_env [''A'', ''B'', ''C''] empty_world =
     (Inr [], emit (emptyWarning [''B'']) empty_world)"
proof -
  have h1: "\<not> interactive demo_env" by (simp add: demo_env_def)
  have h2: "\<forall>b \<in> set [''A'', ''B'', ''C'']. parentFromMeta demo_env b \<noteq> None"
    by (simp add: demo_env_def)
  have h3: "\<exists>b \<in> set [''A'', ''B'', ''C'']. isEmptyBranch demo_env b (the (parentFromMeta demo_env b))"
    by (simp add: demo_env_def)
  have h4: "[''B''] = filter (\<lambda>b. isEmptyBranch demo_env b (the (parentFromMeta demo_env b))) [''A'', ''B'', ''C'']"
    by (simp add: demo_env_def)
  from checkForEmptyBranches_non_interactive[OF h1 h2 h3 h4, of empty_world]
  show ?thesis by (rule conjunct1)
qed

text \<open>
  Claim C10. Whenever checkForEmptyBranches returns a list \<open>r\<close>, it is the whole input
  (no branch is empty, or the process is interactive and the user chose to continue) or
  the empty list (some branch is empty, and the process is not interactive or the user
  chose something else than to continue). The filtered list of empty branches is never
  what is returned.
\<close>

theorem checkForEmptyBranches_all_or_nothing:
  assumes "checkForEmptyBranches e bs w = (Inr r, w')"
  shows "(r = bs \<and>
           (filterEmptyBranches e bs = Inr [] \<or>
            interactive e \<and> promptResponse e = Selected ''continue_empty''))
       \<or> (r = [] \<and>
           (\<exists>es. filterEmptyBranches e bs = Inr es \<and> es \<noteq> []) \<and>
           (\<not> interactive e \<or> (\<exists>v. promptResponse e = Selected v \<and> v \<noteq> ''continue_empty'')))"
proof (cases "filterEmptyBranches e bs")
  case (Inl err)
  with assms show ?thesis by (simp add: checkForEmptyBranches_def)
next
  case (Inr es)
  from checkForEmptyBranches_cases[OF Inr, of w] assms Inr show ?thesis
    by (auto split: if_splits prompt_result.splits)
qed

text \<open>The interactive user continues with the empty branch \<open>B\<close>: the three branches come
  back.\<close>

theorem checkForEmptyBranches_all_or_nothing_witness:
  "checkForEmptyBranches asking_env [''A'', ''B'', ''C''] empty_world =
     (Inr [''A'', ''B'', ''C''],
      emit [LogNewline]
        (emit [Prompt ''How would you like to proceed?''
                 [(''Abort command and keep working on this branch'', ''fix_manually''),
                  (''Continue with empty branch'', ''continue_empty'')]]
           (emit (emptyWarning [''B'']) empty_world))) \<and>
   interactive asking_env \<and> promptResponse asking_env = Selected ''continue_empty''"
proof -
  have f: "filterEmptyBranches asking_env [''A'', ''B'', ''C''] = Inr [''B'']"
    by (simp add: asking_env_def demo_env_def getBranchBaseName_def)
  have run: "checkForEmptyBranches asking_env [''A'', ''B'', ''C''] empty_world =
     (Inr [''A'', ''B'', ''C''],
      emit [LogNewline]
        (emit [Prompt ''How would you like to proceed?''
                 [(''Abort command and keep working on this branch'', ''fix_manually''),
                  (''Continue with empty branch'', ''continue_empty'')]]
           (emit (emptyWarning [''B'']) empty_world)))"
    using checkForEmptyBranches_cases[OF f, of empty_world]
    by (simp add: asking_env_def demo_env_def)
  from checkForEmptyBranches_all_or_nothing[OF run] f run
  show ?thesis by auto
qed

subsection \<open>submitPullRequest and requestServerToSubmitPRs\<close>

lemma foldl_requests:
  "foldl (\<lambda>requests prRequest. requests(head prRequest \<mapsto> prRequest)) m rs h = Some r
   \<Longrightarrow> m h = Some r \<or> (head r = h \<and> r \<in> set rs)"
proof (induction rs arbitrary: m)
  case Nil
  then show ?case by simp
next
  case (Cons a rs)
  from Cons.prems have "foldl (\<lambda>requests prRequest. requests(head prRequest \<mapsto> prRequest))
                          (m(head a \<mapsto> a)) rs h = Some r"
    by (simp only: foldl_Cons)
  from Cons.IH[OF this] show ?case
    by (cases "head a = h") auto
qed

lemma requestsByHead_Some:
  "requestsByHead rs h = Some r \<Longrightarrow> head r = h \<and> r \<in> set rs"
  using foldl_requests[of Map.empty rs h r] by (simp add: requestsByHead_def)

lemma foldl_requests_assigned:
  "m h \<noteq> None \<or> (\<exists>q \<in> set rs. head q = h) \<Longrightarrow>
   foldl (\<lambda>requests prRequest. requests(head prRequest \<mapsto> prRequest)) m rs h \<noteq> None"
proof (induction rs arbitrary: m)
  case Nil
  then show ?case by simp
next
  case (Cons a rs)
  from Cons.prems have "(m(head a \<mapsto> a)) h \<noteq> None \<or> (\<exists>q \<in> set rs. head q = h)"
    by auto
  then have "foldl (\<lambda>requests prRequest. requests(head prRequest \<mapsto> prRequest))
               (m(head a \<mapsto> a)) rs h \<noteq> None"
    by (rule Cons.IH)
  then show ?case unfolding foldl_Cons .
qed

lemma requestsByHead_assigned:
  "\<exists>q \<in> set rs. head q = h \<Longrightarrow> \<exists>r. requestsByHead rs h = Some r"
  using foldl_requests_assigned[of Map.empty h rs] by (auto simp: requestsByHead_def)

lemma lookupRequest_assigned:
  assumes "\<exists>q \<in> set rs. head q = h"
  shows "\<exists>q \<in> set rs. head q = h \<and> lookupRequest e rs h = Found q"
proof -
  from requestsByHead_assigned[OF assms] obtain r where r: "requestsByHead rs h = Some r" ..
  from requestsByHead_Some[OF r] r show ?thesis by (auto simp: lookupRequest_def)
qed

lemma lookupRequest_Found:
  "requestsByHead rs h = Some r \<Longrightarrow> lookupRequest e rs h = Found r"
  by (simp add: lookupRequest_def)



lemma requestServerToSubmitPRs_eq:
  "requestServerToSubmitPRs e args w =
     (let resp = requestWithArgs e (submitParams e args);
          w1 = emit [ConsoleLog (submissionInfo args), SubmitRequest (submitParams e args)] w
      in if status resp = 200 \<and> bodyPresent resp then
           (Inr (map (\<lambda>prResponse.
                        \<lparr>request = lookupRequest e (submissionInfo args) (response_head prResponse),
                         response = prResponse\<rparr>)
                     (response_prs resp)), w1)
         else if status resp = 401 then (Inl (PreconditionsFailedError (msgAuth e)), w1)
         else (Inl (ExitFailedError (msgUnexpected e resp)), w1))"
  by (simp add: requestServerToSubmitPRs_def SUCCESS_RESPONSE_CODE_def UNAUTHORIZED_RESPONSE_CODE_def Let_def)

lemma upsertPatch_fields:
  "number (foldl setField i (upsertPatch n u req)) = Some n \<and>
   url (foldl setField i (upsertPatch n u req)) = Some u \<and>
   base (foldl setField i (upsertPatch n u req)) = Some (req_base req) \<and>
   state (foldl setField i (upsertPatch n u req)) = Some OPEN"
  by (cases "action req"; cases "req_draft req") (simp_all add: upsertPatch_def)

text \<open>
  Claim C3, amended. submitPullRequest reads the first response of the batch only. When
  the batch returns successfully (status 200 with a body), its first response is not an
  error and its head \<open>h\<close> is the head of a request of the submission, the engine is
  called with upsertPrInfo for \<open>h\<close> with the PR number and URL of the response, the base
  of that request (the last one with head \<open>h\<close>) and state OPEN; hence afterwards the PR
  info of \<open>h\<close> has these four values, its base being the base of the request.
\<close>

theorem submitPullRequest_first_response:
  assumes "resp = requestWithArgs e (submitParams e args)"
    and "status resp = 200" and "bodyPresent resp"
    and "response_prs resp = Submitted h st n u # others"
    and "requestsByHead (submissionInfo args) h = Some req"
    and "w1 = emit [ConsoleLog (submissionInfo args), SubmitRequest (submitParams e args)] w"
  shows "submitPullRequest e args w =
           (Inr (), emit [SplogInfo (h @ '': '' @ u @ '' ('' @ statusText st @ '')'')]
                      (upsertPrInfo h (upsertPatch n u req) w1)) \<and>
         head req = h \<and> req \<in> set (submissionInfo args) \<and>
         (\<exists>i. prInfos (snd (submitPullRequest e args w)) h = Some i \<and>
              number i = Some n \<and> url i = Some u \<and> base i = Some (req_base req) \<and>
              state i = Some OPEN)"
proof -
  have run: "submitPullRequest e args w =
           (Inr (), emit [SplogInfo (h @ '': '' @ u @ '' ('' @ statusText st @ '')'')]
                      (upsertPrInfo h (upsertPatch n u req) w1))"
    using assms
    by (simp add: submitPullRequest_def requestServerToSubmitPRs_eq lookupRequest_def Let_def)
  have "prInfos (snd (submitPullRequest e args w)) h =
          Some (foldl setField (case prInfos w1 h of None \<Rightarrow> emptyPrInfo | Some i \<Rightarrow> i) (upsertPatch n u req))"
    by (simp add: run upsertPrInfo_def)
  with run requestsByHead_Some[OF assms(5)] upsertPatch_fields show ?thesis
    by blast
qed

text \<open>
  Against claim C3 as stated. A batch of two PRs, for \<open>A\<close> and \<open>B\<close>, returns
  successfully with a response for each. submitPullRequest finishes without error, and
  \<open>B\<close>, a submitted branch of the batch, has no PR info: upsertPrInfo was called for
  \<open>A\<close> only.
\<close>

theorem submitPullRequest_batch_counterexample:
  "response_prs (requestWithArgs batch_env (submitParams batch_env batch_args)) =
     [Submitted ''A'' Created 1 ''https://host/pull/1'', Submitted ''B'' Created 2 ''https://host/pull/2''] \<and>
   fst (submitPullRequest batch_env batch_args empty_world) = Inr () \<and>
   prInfos (snd (submitPullRequest batch_env batch_args empty_world)) ''B'' = None"
  by (simp add: submitPullRequest_def requestServerToSubmitPRs_eq lookupRequest_def batch_env_def
        batch_args_def demo_env_def requestsByHead_def requestA_def requestB_def upsertPrInfo_def
        empty_world_def emit_def Let_def)

text \<open>The same batch: the PR info of \<open>A\<close>, the head of the first response, is written.\<close>

theorem submitPullRequest_first_response_witness:
  "submitPullRequest batch_env batch_args empty_world =
     (Inr (), emit [SplogInfo (''A'' @ '': '' @ ''https://host/pull/1'' @ '' ('' @ statusText Created @ '')'')]
                (upsertPrInfo ''A'' (upsertPatch 1 ''https://host/pull/1'' requestA)
                   (emit [ConsoleLog (submissionInfo batch_args),
                          SubmitRequest (submitParams batch_env batch_args)] empty_world))) \<and>
   head requestA = ''A'' \<and> requestA \<in> set (submissionInfo batch_args) \<and>
   (\<exists>i. prInfos (snd (submitPullRequest batch_env batch_args empty_world)) ''A'' = Some i \<and>
        number i = Some 1 \<and> url i = Some ''https://host/pull/1'' \<and>
        base i = Some (req_base requestA) \<and> state i = Some OPEN)"
proof -
  let ?resp = "requestWithArgs batch_env (submitParams batch_env batch_args)"
  have h2: "status ?resp = 200" and h3: "bodyPresent ?resp"
    and h4: "response_prs ?resp = Submitted ''A'' Created 1 ''https://host/pull/1'' #
                                    [Submitted ''B'' Created 2 ''https://host/pull/2'']"
    by (simp_all add: batch_env_def)
  have h5: "requestsByHead (submissionInfo batch_args) ''A'' = Some requestA"
    by (simp add: requestsByHead_def batch_args_def requestA_def requestB_def)
  show ?thesis
    by (rule submitPullRequest_first_response[OF refl h2 h3 h4 h5 refl])
qed

text \<open>
  Claim C4. requestServerToSubmitPRs maps the transport outcome three ways. Status 200
  with a body: it returns the responses in order, each paired with what
  \<open>requests[head]\<close> reads under the head of the response; for every response whose
  head is the head of a request of the submission, that is a request of the submission
  with that head. Status 401: it throws the error whose message sends the user to the
  app server URL followed by \<open>/activate\<close>; submitPullRequest passes the error on, and
  the PR info is untouched. Any other status: it throws the error whose message contains
  the line of the \<open>x-graphite-request-id\<close> header with its value, or \<open><empty>\<close> when
  the header is missing or empty.
\<close>

theorem requestServerToSubmitPRs_outcomes:
  assumes "resp = requestWithArgs e (submitParams e args)"
    and "w1 = emit [ConsoleLog (submissionInfo args), SubmitRequest (submitParams e args)] w"
    and "requestId = (case requestIdHeader resp of
                        None \<Rightarrow> ''<empty>''
                      | Some v \<Rightarrow> if v = [] then ''<empty>'' else v)"
  shows "(status resp = 200 \<and> bodyPresent resp \<longrightarrow>
            requestServerToSubmitPRs e args w =
              (Inr (map (\<lambda>r. \<lparr>request = lookupRequest e (submissionInfo args) (response_head r),
                               response = r\<rparr>) (response_prs resp)), w1) \<and>
            (\<forall>r \<in> set (response_prs resp).
               (\<exists>q \<in> set (submissionInfo args). head q = response_head r) \<longrightarrow>
               (\<exists>q \<in> set (submissionInfo args). head q = response_head r \<and>
                  lookupRequest e (submissionInfo args) (response_head r) = Found q)) \<and>
            (\<forall>r \<in> set (response_prs resp). \<forall>q.
               requestsByHead (submissionInfo args) (response_head r) = Some q \<longrightarrow>
               head q = response_head r \<and> q \<in> set (submissionInfo args)))
       \<and> (status resp = 401 \<longrightarrow>
            requestServerToSubmitPRs e args w = (Inl (PreconditionsFailedError (msgAuth e)), w1) \<and>
            submitPullRequest e args w = (Inl (PreconditionsFailedError (msgAuth e)), w1) \<and>
            prInfos w1 = prInfos w \<and>
            msgAuth e =
              ''Your Graphite auth token is invalid/expired.'' @ newline @ newline @
              ''Please obtain a new auth token by visiting '' @ getAppServerUrl e @ ''/activate'')
       \<and> (status resp \<noteq> 200 \<and> status resp \<noteq> 401 \<longrightarrow>
            requestServerToSubmitPRs e args w = (Inl (ExitFailedError (msgUnexpected e resp)), w1) \<and>
            msgUnexpected e resp =
              ''Unexpected server response ('' @ show_nat (status resp) @ '').'' @
              newline @ newline @ ''Headers:'' @ newline @
              ''  x-graphite-request-id: '' @ requestId @
              newline @ newline @ ''Response: '' @ cuteString e resp)"
  using assms requestsByHead_Some lookupRequest_assigned
  by (auto simp: requestServerToSubmitPRs_eq submitPullRequest_def msgAuth_def msgUnexpected_def
        formattedHeaders_def Let_def)

text \<open>The three outcomes: 401 from the review host of \<open>demo_env\<close>, 500 with request id
  \<open>req-42\<close>, and the accepted batch.\<close>

lemma show_nat_500: "show_nat 500 = ''500''"
  by (simp add: show_nat.simps)

theorem requestServerToSubmitPRs_outcomes_witness:
  "submitPullRequest demo_env batch_args empty_world =
     (Inl (PreconditionsFailedError
            (''Your Graphite auth token is invalid/expired.'' @ newline @ newline @
             ''Please obtain a new auth token by visiting https://app.graphite.dev/activate'')),
      emit [ConsoleLog [requestA, requestB], SubmitRequest (submitParams demo_env batch_args)]
        empty_world) \<and>
   requestServerToSubmitPRs broken_env batch_args empty_world =
     (Inl (ExitFailedError
            (''Unexpected server response (500).'' @ newline @ newline @ ''Headers:'' @ newline @
             ''  x-graphite-request-id: req-42'' @ newline @ newline @ ''Response: {}'')),
      emit [ConsoleLog [requestA, requestB], SubmitRequest (submitParams broken_env batch_args)]
        empty_world) \<and>
   requestServerToSubmitPRs batch_env batch_args empty_world =
     (Inr [\<lparr>request = Found requestA, response = Submitted ''A'' Created 1 ''https://host/pull/1''\<rparr>,
           \<lparr>request = Found requestB, response = Submitted ''B'' Created 2 ''https://host/pull/2''\<rparr>],
      emit [ConsoleLog [requestA, requestB], SubmitRequest (submitParams batch_env batch_args)]
        empty_world)"
proof -
  have a401: "status (requestWithArgs demo_env (submitParams demo_env batch_args)) = 401"
    by (simp add: demo_env_def)
  have a500: "status (requestWithArgs broken_env (submitParams broken_env batch_args)) \<noteq> 200 \<and>
              status (requestWithArgs broken_env (submitParams broken_env batch_args)) \<noteq> 401"
    by (simp add: broken_env_def)
  have a200: "status (requestWithArgs batch_env (submitParams batch_env batch_args)) = 200 \<and>
              bodyPresent (requestWithArgs batch_env (submitParams batch_env batch_args))"
    by (simp add: batch_env_def)
  have heads: "lookupRequest batch_env [requestA, requestB] ''A'' = Found requestA"
      "lookupRequest batch_env [requestA, requestB] ''B'' = Found requestB"
    by (simp_all add: lookupRequest_def requestsByHead_def requestA_def requestB_def)
  note t = requestServerToSubmitPRs_outcomes[OF refl refl refl]
  from t[of demo_env batch_args empty_world] a401
  have c1: "submitPullRequest demo_env batch_args empty_world =
              (Inl (PreconditionsFailedError (msgAuth demo_env)),
               emit [ConsoleLog (submissionInfo batch_args), SubmitRequest (submitParams demo_env batch_args)]
                 empty_world)"
    by blast
  from t[of broken_env batch_args empty_world] a500
  have c2: "requestServerToSubmitPRs broken_env batch_args empty_world =
              (Inl (ExitFailedError (msgUnexpected broken_env
                      (requestWithArgs broken_env (submitParams broken_env batch_args)))),
               emit [ConsoleLog (submissionInfo batch_args), SubmitRequest (submitParams broken_env batch_args)]
                 empty_world)"
    by blast
  from t[of batch_env batch_args empty_world] a200
  have c3: "requestServerToSubmitPRs batch_env batch_args empty_world =
              (Inr (map (\<lambda>r. \<lparr>request = lookupRequest batch_env (submissionInfo batch_args) (response_head r),
                               response = r\<rparr>)
                      (response_prs (requestWithArgs batch_env (submitParams batch_env batch_args)))),
               emit [ConsoleLog (submissionInfo batch_args), SubmitRequest (submitParams batch_env batch_args)]
                 empty_world)"
    by blast
  have m1: "msgAuth demo_env = ''Your Graphite auth token is invalid/expired.'' @ newline @ newline @
             ''Please obtain a new auth token by visiting https://app.graphite.dev/activate''"
    by (simp add: msgAuth_def demo_env_def)
  have m2: "msgUnexpected broken_env (requestWithArgs broken_env (submitParams broken_env batch_args)) =
            ''Unexpected server response (500).'' @ newline @ newline @ ''Headers:'' @ newline @
             ''  x-graphite-request-id: req-42'' @ newline @ newline @ ''Response: {}''"
    by (simp add: msgUnexpected_def formattedHeaders_def broken_env_def demo_env_def show_nat_500)
  have r3: "response_prs (requestWithArgs batch_env (submitParams batch_env batch_args)) =
              [Submitted ''A'' Created 1 ''https://host/pull/1'', Submitted ''B'' Created 2 ''https://host/pull/2'']"
    by (simp add: batch_env_def)
  have sub: "submissionInfo batch_args = [requestA, requestB]" by (simp add: batch_args_def)
  from c1 c2 c3 show ?thesis
    by (simp add: m1 m2 r3 sub heads)
qed

text \<open>
  A response for the head \<open>constructor\<close>, under which no request was assigned:
  \<open>requests[head]\<close> reads the function that every object inherits, nothing is thrown,
  and the PR info of \<open>constructor\<close> is written without a base.
\<close>

lemma submitPullRequest_inherited_head:
  "lookupRequest stray_env (submissionInfo batch_args) ''constructor'' = Inherited \<and>
   fst (submitPullRequest stray_env batch_args empty_world) = Inr () \<and>
   prInfos (snd (submitPullRequest stray_env batch_args empty_world)) ''constructor'' =
     Some (emptyPrInfo\<lparr>number := Some 3, url := Some ''https://host/pull/3'', state := Some OPEN\<rparr>)"
  by (simp add: submitPullRequest_def requestServerToSubmitPRs_eq lookupRequest_def stray_env_def
        batch_args_def demo_env_def requestsByHead_def requestA_def requestB_def upsertPrInfo_def
        empty_world_def emit_def emptyPrInfo_def Let_def)




end
